theory Spec2Isabelle
  imports Complex_Main "HOL-Library.Word"
begin

section \<open>Python values used by scripts/predict\_rice\_grain.py\<close>

text \<open>
  An exception is a value carrying its class name and the text that \<open>str(e)\<close> gives.
  Every exception below derives from Python's \<open>Exception\<close>. A computation that may
  raise has the type \<open>exn + 'a\<close>, with \<open>Inl\<close> for the raised exception.
\<close>

datatype exn = Exception (exn_class: string) (str: string)

text \<open>
  A numpy array is its element type, its shape and its elements in row-major order.
  Elements are real numbers: the rounding of 32-bit floats and the values NaN and
  infinity are not part of this model.
\<close>

datatype dtype = UInt8 | Float32 | Float64

record ndarray =
  dtype :: dtype
  shape :: "nat list"
  data :: "real list"

definition wf_ndarray :: "ndarray \<Rightarrow> bool" where
  "wf_ndarray a = (length (data a) = prod_list (shape a))"

text \<open>\<open>a[0]\<close>: the first item along axis 0.\<close>

definition getitem0 :: "ndarray \<Rightarrow> exn + ndarray" where
  "getitem0 a =
     (case shape a of
        [] \<Rightarrow> Inl (Exception ''IndexError'' ''too many indices for array'')
      | n # ns \<Rightarrow>
          if n = 0 then Inl (Exception ''IndexError'' ''index 0 is out of bounds for axis 0 with size 0'')
          else Inr \<lparr>dtype = dtype a, shape = ns, data = take (prod_list ns) (data a)\<rparr>)"

text \<open>
  \<open>np.argmax\<close> scans the flattened array from the left and moves to a later position
  only when the element there is strictly greater than the best one so far.
\<close>

fun argmax_loop :: "real list \<Rightarrow> nat \<Rightarrow> nat \<Rightarrow> real \<Rightarrow> nat" where
  "argmax_loop [] i best_i best = best_i"
| "argmax_loop (x # xs) i best_i best =
     (if best < x then argmax_loop xs (Suc i) i x else argmax_loop xs (Suc i) best_i best)"

definition np_argmax :: "ndarray \<Rightarrow> exn + nat" where
  "np_argmax a =
     (case data a of
        [] \<Rightarrow> Inl (Exception ''ValueError'' ''attempt to get argmax of an empty sequence'')
      | x # xs \<Rightarrow> Inr (argmax_loop xs 1 0 x))"

definition np_max :: "ndarray \<Rightarrow> exn + real" where
  "np_max a =
     (case data a of
        [] \<Rightarrow> Inl (Exception ''ValueError''
                ''zero-size array to reduction operation maximum which has no identity'')
      | x # xs \<Rightarrow> Inr (fold max xs x))"

text \<open>
  \<open>a / c\<close> for a Python float \<open>c\<close>: element by element; a float32 array stays float32,
  any other array becomes float64.
\<close>

definition np_divide :: "ndarray \<Rightarrow> real \<Rightarrow> ndarray" where
  "np_divide a c =
     a\<lparr>dtype := (if dtype a = Float32 then Float32 else Float64),
       data := map (\<lambda>x. x / c) (data a)\<rparr>"

text \<open>\<open>np.expand_dims(a, axis=0)\<close> and \<open>a.astype(t)\<close>.\<close>

definition np_expand_dims0 :: "ndarray \<Rightarrow> ndarray" where
  "np_expand_dims0 a = a\<lparr>shape := 1 # shape a\<rparr>"

definition astype :: "ndarray \<Rightarrow> dtype \<Rightarrow> ndarray" where
  "astype a t = a\<lparr>dtype := t\<rparr>"

section \<open>The external libraries\<close>

text \<open>
  A decoded image as the image library hands it over: its height, its width, its number
  of bands (3 for RGB) and its 8-bit samples, row by row, band after band.
\<close>

record pil_image =
  im_height :: nat
  im_width :: nat
  im_bands :: nat
  im_pixels :: "8 word list"

text \<open>
  \<open>image.img_to_array\<close>: a float32 array of shape (height, width, bands) holding the
  samples as numbers.
\<close>

definition img_to_array :: "pil_image \<Rightarrow> ndarray" where
  "img_to_array img =
     \<lparr>dtype = Float32,
      shape = [im_height img, im_width img, im_bands img],
      data = map (\<lambda>p. real (unat p)) (im_pixels img)\<rparr>"

text \<open>
  One entry of \<open>get_input_details()\<close> or \<open>get_output_details()\<close>; the script reads
  only the key \<open>"index"\<close>.
\<close>

record detail =
  tensor_index :: nat

text \<open>
  The file system, the inference runtime and the image decoder are black boxes: the
  script is verified for every behaviour of theirs. \<open>'h\<close> is the state of an
  interpreter object; a call that mutates the object returns its new state.
\<close>

record 'h libs =
  os_path_exists :: "string \<Rightarrow> bool"
  Interpreter :: "string \<Rightarrow> exn + 'h"
  allocate_tensors :: "'h \<Rightarrow> exn + 'h"
  get_input_details :: "'h \<Rightarrow> detail list"
  get_output_details :: "'h \<Rightarrow> detail list"
  set_tensor :: "'h \<Rightarrow> nat \<Rightarrow> ndarray \<Rightarrow> exn + 'h"
  invoke :: "'h \<Rightarrow> exn + 'h"
  get_tensor :: "'h \<Rightarrow> nat \<Rightarrow> exn + ndarray"
  load_img :: "string \<Rightarrow> nat \<times> nat \<Rightarrow> exn + pil_image"

text \<open>\<open>xs[0]\<close> on a Python list.\<close>

definition list_getitem0 :: "'a list \<Rightarrow> exn + 'a" where
  "list_getitem0 xs =
     (case xs of
        [] \<Rightarrow> Inl (Exception ''IndexError'' ''list index out of range'')
      | x # _ \<Rightarrow> Inr x)"

definition list_getitem :: "'a list \<Rightarrow> nat \<Rightarrow> exn + 'a" where
  "list_getitem xs i =
     (if i < length xs then Inr (xs ! i)
      else Inl (Exception ''IndexError'' ''list index out of range''))"

section \<open>The functions of the script\<close>

text \<open>Lines 11 to 17.\<close>

definition load_interpreter :: "'h libs \<Rightarrow> string \<Rightarrow> exn + 'h" where
  "load_interpreter L model_path =
     (case Interpreter L model_path of
        Inl e \<Rightarrow> Inl e
      | Inr interpreter \<Rightarrow> allocate_tensors L interpreter)"

text \<open>
  Lines 27 to 33 of \<open>tflite_fp32_predict\<close>: bind the input, run the forward pass, read
  the output. The result is the output tensor and the interpreter after the run.
\<close>

definition forward_pass :: "'h libs \<Rightarrow> 'h \<Rightarrow> ndarray \<Rightarrow> exn + (ndarray \<times> 'h)" where
  "forward_pass L interpreter img =
     (let input_details = get_input_details L interpreter;
          output_details = get_output_details L interpreter
      in case list_getitem0 input_details of
           Inl e \<Rightarrow> Inl e
         | Inr d_in \<Rightarrow>
             (case set_tensor L interpreter (tensor_index d_in) img of
                Inl e \<Rightarrow> Inl e
              | Inr h1 \<Rightarrow>
                  (case invoke L h1 of
                     Inl e \<Rightarrow> Inl e
                   | Inr h2 \<Rightarrow>
                       (case list_getitem0 output_details of
                          Inl e \<Rightarrow> Inl e
                        | Inr d_out \<Rightarrow>
                            (case get_tensor L h2 (tensor_index d_out) of
                               Inl e \<Rightarrow> Inl e
                             | Inr output \<Rightarrow> Inr (output, h2))))))"

text \<open>Lines 21 to 34; line 34 evaluates \<open>output[0]\<close> twice, left to right.\<close>

definition tflite_fp32_predict ::
  "'h libs \<Rightarrow> 'h \<Rightarrow> ndarray \<Rightarrow> exn + ((nat \<times> real) \<times> 'h)" where
  "tflite_fp32_predict L interpreter img =
     (case forward_pass L interpreter img of
        Inl e \<Rightarrow> Inl e
      | Inr (output, h2) \<Rightarrow>
          (case getitem0 output of
             Inl e \<Rightarrow> Inl e
           | Inr row \<Rightarrow>
               (case np_argmax row of
                  Inl e \<Rightarrow> Inl e
                | Inr pred \<Rightarrow>
                    (case getitem0 output of
                       Inl e \<Rightarrow> Inl e
                     | Inr row' \<Rightarrow>
                         (case np_max row' of
                            Inl e \<Rightarrow> Inl e
                          | Inr confidence \<Rightarrow> Inr ((pred, confidence), h2))))))"

text \<open>
  Lines 38 to 47; the default of \<open>target_size\<close> is (128, 128). The parameter is
  written \<open>target_sz\<close> here, \<open>target_size\<close> being a constant of the word library.
\<close>

definition default_target_size :: "nat \<times> nat" where
  "default_target_size = (128, 128)"

definition load_single_image :: "'h libs \<Rightarrow> string \<Rightarrow> nat \<times> nat \<Rightarrow> exn + ndarray" where
  "load_single_image L img_path target_sz =
     (case load_img L img_path target_sz of
        Inl e \<Rightarrow> Inl e
      | Inr img \<Rightarrow>
          (let img_array = img_to_array img;
               img_array = np_divide img_array 255;
               img_array = astype (np_expand_dims0 img_array) Float32
           in Inr img_array))"

section \<open>Formatting\<close>

text \<open>
  \<open>format(x, ".2f")\<close>: \<open>x\<close> rounded to two decimals, ties to even, written with at
  least one digit before the point and exactly two after it.
\<close>

definition round_half_even :: "real \<Rightarrow> int" where
  "round_half_even x =
     (let f = \<lfloor>x\<rfloor>; d = x - of_int f
      in if d < 1 / 2 then f
         else if 1 / 2 < d then f + 1
         else if even f then f else f + 1)"

definition digit_char :: "nat \<Rightarrow> char" where
  "digit_char n = ''0123456789'' ! (n mod 10)"

function str_nat :: "nat \<Rightarrow> string" where
  "str_nat n = (if n < 10 then [digit_char n] else str_nat (n div 10) @ [digit_char n])"
  by pat_completeness auto
termination
  by (relation "measure id") auto

declare str_nat.simps [simp del]

definition decimal2 :: "nat \<Rightarrow> string" where
  "decimal2 n = str_nat (n div 100) @ ''.'' @ [digit_char (n div 10), digit_char n]"

definition format_2f :: "real \<Rightarrow> string" where
  "format_2f x =
     (if x < 0 then ''-'' else '''') @ decimal2 (nat (round_half_even (\<bar>x\<bar> * 100)))"

section \<open>The process and the main function\<close>

text \<open>
  What a run leaves behind: its exit code, what it wrote to standard output and to
  standard error, and the calls the main function made, in order.
\<close>

datatype call =
  Call_exists string
| Call_load_interpreter string
| Call_load_single_image string
| Call_tflite_fp32_predict

record process =
  stdout :: string
  stderr :: string
  calls :: "call list"

record run = process +
  exit_code :: nat

record args =
  args_model :: string
  args_image :: string

definition print_stdout :: "string \<Rightarrow> process \<Rightarrow> process" where
  "print_stdout s p = p\<lparr>stdout := stdout p @ s @ [CHR 0x0A]\<rparr>"

definition print_stderr :: "string \<Rightarrow> process \<Rightarrow> process" where
  "print_stderr s p = p\<lparr>stderr := stderr p @ s @ [CHR 0x0A]\<rparr>"

definition called :: "call \<Rightarrow> process \<Rightarrow> process" where
  "called c p = p\<lparr>calls := calls p @ [c]\<rparr>"

definition sys_exit :: "nat \<Rightarrow> process \<Rightarrow> run" where
  "sys_exit n p = \<lparr>stdout = stdout p, stderr = stderr p, calls = calls p, exit_code = n\<rparr>"

definition start :: process where
  "start = \<lparr>stdout = [], stderr = [], calls = []\<rparr>"

definition classes :: "string list" where
  "classes = [''Karacadag'', ''Ipsala'', ''Arborio'', ''Basmati'', ''Jasmine'']"

text \<open>
  Lines 81 to 95, the body of the \<open>try\<close>: the exception that leaves it, if any, and
  the process with everything printed before.
\<close>

definition try_body :: "'h libs \<Rightarrow> string \<Rightarrow> string \<Rightarrow> process \<Rightarrow> (exn + unit) \<times> process" where
  "try_body L TFLITE_FP32_PATH Image_PATH p0 =
     (let p1 = called (Call_load_interpreter TFLITE_FP32_PATH) p0
      in case load_interpreter L TFLITE_FP32_PATH of
           Inl e \<Rightarrow> (Inl e, p1)
         | Inr tflite_fp32 \<Rightarrow>
             (let p2 = called (Call_load_single_image Image_PATH) p1
              in case load_single_image L Image_PATH default_target_size of
                   Inl e \<Rightarrow> (Inl e, p2)
                 | Inr img \<Rightarrow>
                     (let p3 = called Call_tflite_fp32_predict p2
                      in case tflite_fp32_predict L tflite_fp32 img of
                           Inl e \<Rightarrow> (Inl e, p3)
                         | Inr ((pred, confidence), h) \<Rightarrow>
                             (let p4 = print_stdout (CHR 0x0A # replicate 60 (CHR ''='')) p3;
                                  p5 = print_stdout ''RICE GRAIN CLASSIFICATION RESULTS'' p4;
                                  p6 = print_stdout (replicate 60 (CHR ''='')) p5;
                                  p7 = print_stdout (''Image: '' @ Image_PATH) p6;
                                  p8 = print_stdout (replicate 60 (CHR ''-'')) p7
                              in case list_getitem classes pred of
                                   Inl e \<Rightarrow> (Inl e, p8)
                                 | Inr name \<Rightarrow>
                                     (let p9 = print_stdout
                                            (''Prediction: '' @ name @ '' ('' @
                                             format_2f (confidence * 100) @ ''% confidence)'') p8;
                                          p10 = print_stdout (replicate 60 (CHR ''='')) p9
                                      in (Inr (), p10))))))"

text \<open>Lines 69 to 98, after the arguments are parsed.\<close>

definition main :: "'h libs \<Rightarrow> args \<Rightarrow> run" where
  "main L a =
     (let TFLITE_FP32_PATH = args_model a;
          Image_PATH = args_image a;
          p1 = called (Call_exists TFLITE_FP32_PATH) start
      in if \<not> os_path_exists L TFLITE_FP32_PATH
         then sys_exit 1 (print_stdout (''Model not found: '' @ TFLITE_FP32_PATH) p1)
         else
           (let p2 = called (Call_exists Image_PATH) p1
            in if \<not> os_path_exists L Image_PATH
               then sys_exit 1 (print_stdout (''Image not found: '' @ Image_PATH) p2)
               else
                 (case try_body L TFLITE_FP32_PATH Image_PATH p2 of
                    (Inr _, p3) \<Rightarrow> sys_exit 0 p3
                  | (Inl e, p3) \<Rightarrow> sys_exit 1 (print_stderr (''Error: '' @ str e) p3))))"


section \<open>A concrete environment\<close>

text \<open>
  An environment on which the theorems below are run: two files exist, the model file
  holds a classifier with a (1, 128, 128, 3) float32 input that answers every image with
  the scores below (the maximum is reached at positions 1 and 3), the image decoder
  returns a solid image of intensity 51 at the requested size. An interpreter's state
  is the number of calls that have changed it.
\<close>

definition sample_scores :: ndarray where
  "sample_scores = \<lparr>dtype = Float32, shape = [1, 5], data = [1 / 8, 3 / 8, 1 / 8, 3 / 8, 0]\<rparr>"

definition sample_img :: "nat \<times> nat \<Rightarrow> pil_image" where
  "sample_img target_sz =
     \<lparr>im_height = fst target_sz, im_width = snd target_sz, im_bands = 3,
      im_pixels = replicate (fst target_sz * snd target_sz * 3) 51\<rparr>"

definition sample_libs :: "nat libs" where
  "sample_libs =
     \<lparr>os_path_exists = (\<lambda>p. p = ''rice.tflite'' \<or> p = ''grain.jpg'' \<or> p = ''notes.txt''),
      Interpreter = (\<lambda>p. if p = ''rice.tflite'' then Inr 0
                         else Inl (Exception ''ValueError'' ''Could not open model'')),
      allocate_tensors = (\<lambda>h. Inr (Suc h)),
      get_input_details = (\<lambda>h. [\<lparr>tensor_index = 0\<rparr>]),
      get_output_details = (\<lambda>h. [\<lparr>tensor_index = 1\<rparr>]),
      set_tensor = (\<lambda>h i a.
         if i = 0 \<and> shape a = [1, 128, 128, 3] \<and> dtype a = Float32 then Inr (Suc h)
         else Inl (Exception ''ValueError'' ''Cannot set tensor: Dimension mismatch'')),
      invoke = (\<lambda>h. Inr (Suc h)),
      get_tensor = (\<lambda>h i.
         if i = 1 then Inr sample_scores
         else Inl (Exception ''ValueError'' ''Tensor data is null'')),
      load_img = (\<lambda>p target_sz.
         if p = ''grain.jpg'' then Inr (sample_img target_sz)
         else Inl (Exception ''UnidentifiedImageError'' ''cannot identify image file''))\<rparr>"

definition sample_tensor :: ndarray where
  "sample_tensor =
     \<lparr>dtype = Float32, shape = [1, 128, 128, 3],
      data = map (\<lambda>p. real (unat p) / 255) (im_pixels (sample_img (128, 128)))\<rparr>"

text \<open>
  A second environment with another file system and another decoder, which agrees with
  the first on the files \<open>rice.tflite\<close> and \<open>grain.jpg\<close>.
\<close>

definition sample_libs2 :: "nat libs" where
  "sample_libs2 =
     sample_libs
       \<lparr>os_path_exists := (\<lambda>p. p = ''rice.tflite'' \<or> p = ''grain.jpg''),
        Interpreter := (\<lambda>p. if p = ''rice.tflite'' then Inr 0
                            else Inl (Exception ''OSError'' ''No such file'')),
        load_img := (\<lambda>p target_sz. Inr (sample_img target_sz))\<rparr>"

definition sample_args :: "string \<Rightarrow> string \<Rightarrow> args" where
  "sample_args m i = \<lparr>args_model = m, args_image = i\<rparr>"

section \<open>The arg-max scan\<close>

lemma argmax_loop_inv:
  "length pre = i \<Longrightarrow> bi < i \<Longrightarrow> pre ! bi = b \<Longrightarrow> \<forall>j<i. pre ! j \<le> b \<Longrightarrow> \<forall>j<bi. pre ! j < b \<Longrightarrow>
   argmax_loop xs i bi b < length (pre @ xs) \<and>
   (\<forall>j<length (pre @ xs). (pre @ xs) ! j \<le> (pre @ xs) ! argmax_loop xs i bi b) \<and>
   (\<forall>j<argmax_loop xs i bi b. (pre @ xs) ! j < (pre @ xs) ! argmax_loop xs i bi b)"
proof (induction xs arbitrary: pre i bi b)
  case Nil
  then show ?case by simp
next
  case (Cons x xs)
  have app: "pre @ x # xs = (pre @ [x]) @ xs" by simp
  show ?case
  proof (cases "b < x")
    case True
    have lt: "pre ! j < x" if "j < i" for j
    proof -
      have "pre ! j \<le> b" using Cons.prems(4) that by blast
      then show ?thesis using True by linarith
    qed
    have "\<forall>j<Suc i. (pre @ [x]) ! j \<le> x"
      using Cons.prems(1) lt by (auto simp: nth_append less_Suc_eq intro: less_imp_le)
    moreover have "\<forall>j<i. (pre @ [x]) ! j < x"
      using Cons.prems(1) lt by (auto simp: nth_append)
    moreover have "(pre @ [x]) ! i = x" using Cons.prems by (simp add: nth_append)
    ultimately show ?thesis
      using Cons.IH [of "pre @ [x]" "Suc i" i x] Cons.prems(1) True
      unfolding app by simp
  next
    case False
    have "\<forall>j<Suc i. (pre @ [x]) ! j \<le> b"
      using Cons.prems False by (auto simp: nth_append less_Suc_eq)
    moreover have "\<forall>j<bi. (pre @ [x]) ! j < b"
      using Cons.prems by (auto simp: nth_append)
    moreover have "(pre @ [x]) ! bi = b" using Cons.prems by (simp add: nth_append)
    ultimately show ?thesis
      using Cons.IH [of "pre @ [x]" "Suc i" bi b] Cons.prems(1,2) False
      unfolding app by simp
  qed
qed

lemma fold_max_Max: "fold max xs (x::real) = Max (set (x # xs))"
  by (rule Max.set_eq_fold [symmetric])

lemma argmax_spec:
  assumes "ys = x # xs"
  shows "argmax_loop xs 1 0 x < length ys"
    and "\<forall>j<length ys. ys ! j \<le> ys ! argmax_loop xs 1 0 x"
    and "\<forall>j<argmax_loop xs 1 0 x. ys ! j < ys ! argmax_loop xs 1 0 x"
  using argmax_loop_inv [of "[x]" 1 0 x xs] assms by simp_all

lemma argmax_value:
  assumes "ys = x # xs"
  shows "ys ! argmax_loop xs 1 0 x = fold max xs x"
proof -
  let ?r = "argmax_loop xs 1 0 x"
  have "ys ! ?r \<in> set ys" using argmax_spec(1) [OF assms] by (rule nth_mem)
  moreover have "y \<le> ys ! ?r" if "y \<in> set ys" for y
    using that argmax_spec(2) [OF assms] by (metis in_set_conv_nth)
  ultimately have "Max (set ys) = ys ! ?r"
    by (intro Max_eqI) auto
  then show ?thesis using fold_max_Max [of xs x] assms by simp
qed

lemma predict_Inr:
  "forward_pass L h img = Inr (out, h') \<Longrightarrow> getitem0 out = Inr row \<Longrightarrow> data row = x # xs \<Longrightarrow>
   tflite_fp32_predict L h img = Inr ((argmax_loop xs 1 0 x, fold max xs x), h')"
  by (simp add: tflite_fp32_predict_def np_argmax_def np_max_def)

text \<open>
  Claim C1. When the forward pass succeeds and the score vector \<open>output[0]\<close> has the
  five entries of the 5-class output, the inference runner returns a pair of an index
  and a value: the index is below 5, the value is the entry at that index, and it is
  the maximum of the score vector.
\<close>

theorem predict_argmax_in_range:
  assumes "forward_pass L h img = Inr (out, h')"
      and "getitem0 out = Inr row"
      and "length (data row) = 5"
  shows "\<exists>i v. tflite_fp32_predict L h img = Inr ((i, v), h') \<and> i < 5 \<and>
           data row ! i = v \<and> v = Max (set (data row)) \<and> (\<forall>j<5. data row ! j \<le> v)"
proof -
  obtain x xs where d: "data row = x # xs"
    using assms(3) by (cases "data row") auto
  let ?i = "argmax_loop xs 1 0 x"
  have p: "tflite_fp32_predict L h img = Inr ((?i, fold max xs x), h')"
    using assms(1,2) d by (rule predict_Inr)
  have "?i < 5" using argmax_spec(1) [OF d] assms(3) by simp
  moreover have v: "data row ! ?i = fold max xs x" by (rule argmax_value [OF d])
  moreover have "fold max xs x = Max (set (data row))" using fold_max_Max [of xs x] d by simp
  moreover have "\<forall>j<5. data row ! j \<le> fold max xs x"
    using argmax_spec(2) [OF d] v assms(3) by simp
  ultimately show ?thesis using p by blast
qed

text \<open>
  Claim C9. When the maximum of the score vector occurs at several positions, the
  inference runner returns the smallest of them: every position holding the returned
  value is at or after the returned index.
\<close>

theorem predict_first_maximum:
  assumes "forward_pass L h img = Inr (out, h')"
      and "getitem0 out = Inr row"
      and "data row \<noteq> []"
  shows "\<exists>i v. tflite_fp32_predict L h img = Inr ((i, v), h') \<and> i < length (data row) \<and>
           data row ! i = v \<and> (\<forall>j<length (data row). data row ! j \<le> v) \<and>
           (\<forall>j<length (data row). data row ! j = v \<longrightarrow> i \<le> j)"
proof -
  obtain x xs where d: "data row = x # xs"
    using assms(3) by (cases "data row") auto
  let ?i = "argmax_loop xs 1 0 x"
  have p: "tflite_fp32_predict L h img = Inr ((?i, fold max xs x), h')"
    using assms(1,2) d by (rule predict_Inr)
  have r: "?i < length (data row)" by (rule argmax_spec(1) [OF d])
  have v: "data row ! ?i = fold max xs x" by (rule argmax_value [OF d])
  have ub: "\<forall>j<length (data row). data row ! j \<le> fold max xs x"
    using argmax_spec(2) [OF d] v by simp
  have first: "\<forall>j<?i. data row ! j < fold max xs x"
    using argmax_spec(3) [OF d] v by simp
  have "\<forall>j<length (data row). data row ! j = fold max xs x \<longrightarrow> ?i \<le> j"
  proof (intro allI impI)
    fix j assume "j < length (data row)" and e: "data row ! j = fold max xs x"
    show "?i \<le> j"
    proof (rule ccontr)
      assume "\<not> ?i \<le> j"
      then have "j < ?i" by simp
      then have "data row ! j < fold max xs x" using first by blast
      then show False using e by simp
    qed
  qed
  then show ?thesis using p r v ub by blast
qed

subsection \<open>The inference runner on the concrete environment\<close>

lemma sample_forward:
  "forward_pass sample_libs 1 sample_tensor = Inr (sample_scores, 3)"
  by (simp add: forward_pass_def sample_libs_def sample_tensor_def list_getitem0_def numeral_3_eq_3)

lemma sample_row:
  "getitem0 sample_scores = Inr \<lparr>dtype = Float32, shape = [5], data = [1 / 8, 3 / 8, 1 / 8, 3 / 8, 0]\<rparr>"
  by (simp add: getitem0_def sample_scores_def)

lemma sample_predict: "tflite_fp32_predict sample_libs 1 sample_tensor = Inr ((1, 3/8), 3)"
  using predict_Inr [OF sample_forward sample_row, of "1/8" "[3/8, 1/8, 3/8, 0]"] by simp

lemma sample_row_length:
  "length (data \<lparr>dtype = Float32, shape = [5], data = [1 / 8, 3 / 8, 1 / 8, 3 / 8, 0]\<rparr>) = 5"
  by simp

lemma sample_row_nonempty:
  "data \<lparr>dtype = Float32, shape = [5], data = [1 / 8, 3 / 8, 1 / 8, 3 / 8, 0]\<rparr> \<noteq> []"
  by simp

theorem predict_argmax_in_range_witness:
  "\<exists>i v. tflite_fp32_predict sample_libs 1 sample_tensor = Inr ((i, v), 3) \<and> i < 5 \<and>
     i = 1 \<and> v = 3 / 8"
proof -
  from predict_argmax_in_range [OF sample_forward sample_row sample_row_length]
  obtain i v where p: "tflite_fp32_predict sample_libs 1 sample_tensor = Inr ((i, v), 3)"
    and r: "i < 5"
    by blast
  have "i = 1 \<and> v = 3 / 8" using p sample_predict by simp
  then show ?thesis using p r by blast
qed

theorem predict_first_maximum_witness:
  "\<exists>i. tflite_fp32_predict sample_libs 1 sample_tensor = Inr ((i, 3 / 8), 3) \<and>
     i = 1 \<and> i \<le> 3 \<and> [1 / 8, 3 / 8, 1 / 8, 3 / 8, 0::real] ! 3 = 3 / 8"
proof -
  from predict_first_maximum [OF sample_forward sample_row sample_row_nonempty]
  obtain i v where p: "tflite_fp32_predict sample_libs 1 sample_tensor = Inr ((i, v), 3)"
    and f: "\<forall>j<length (data \<lparr>dtype = Float32, shape = [5], data = [1 / 8, 3 / 8, 1 / 8, 3 / 8, 0]\<rparr>).
              data \<lparr>dtype = Float32, shape = [5], data = [1 / 8, 3 / 8, 1 / 8, 3 / 8, 0]\<rparr> ! j = v \<longrightarrow> i \<le> j"
    by blast
  have iv: "i = 1 \<and> v = 3 / 8" using p sample_predict by simp
  have "i \<le> 3" using f [rule_format, of 3] iv by simp
  then show ?thesis using p iv by simp
qed


section \<open>The image preprocessor\<close>

lemma load_single_image_Inr:
  "load_img L p ts = Inr img \<Longrightarrow>
   load_single_image L p ts =
     Inr \<lparr>dtype = Float32, shape = [1, im_height img, im_width img, im_bands img],
          data = map (\<lambda>q. real (unat q) / 255) (im_pixels img)\<rparr>"
  by (simp add: load_single_image_def img_to_array_def np_divide_def np_expand_dims0_def
      astype_def)





text \<open>
  Claim C3. With the default target size, when the decoder returns an RGB image of the
  requested size, the preprocessor returns a float32 tensor of the four dimensions
  (1, 128, 128, 3), with one element per sample.
\<close>

theorem load_single_image_shape:
  assumes "load_img L p default_target_size = Inr img"
      and "(im_height img, im_width img) = default_target_size"
      and "im_bands img = 3"
  shows "\<exists>t. load_single_image L p default_target_size = Inr t \<and>
           shape t = [1, 128, 128, 3] \<and> length (shape t) = 4 \<and> dtype t = Float32 \<and>
           length (data t) = length (im_pixels img) \<and>
           (length (im_pixels img) = 128 * 128 * 3 \<longrightarrow> wf_ndarray t)"
proof -
  have "im_height img = 128" and "im_width img = 128"
    using assms(2) by (simp_all add: default_target_size_def)
  then show ?thesis
    using load_single_image_Inr [OF assms(1)] assms(3) by (simp add: wf_ndarray_def)
qed

subsection \<open>The preprocessor on the concrete environment\<close>

lemma sample_load_img:
  "load_img sample_libs ''grain.jpg'' ts = Inr (sample_img ts)"
  by (simp add: sample_libs_def)


lemma sample_img_size:
  "(im_height (sample_img default_target_size), im_width (sample_img default_target_size)) =
     default_target_size"
  by (simp add: sample_img_def)

lemma sample_img_bands: "im_bands (sample_img ts) = 3"
  by (simp add: sample_img_def)

theorem load_single_image_shape_witness:
  "\<exists>t. load_single_image sample_libs ''grain.jpg'' (128, 128) = Inr t \<and>
     shape t = [1, 128, 128, 3] \<and> dtype t = Float32 \<and> length (data t) = 49152"
proof -
  from load_single_image_shape [OF sample_load_img sample_img_size sample_img_bands]
  obtain t where "load_single_image sample_libs ''grain.jpg'' default_target_size = Inr t"
    and "shape t = [1, 128, 128, 3]" and "dtype t = Float32"
    and "length (data t) = length (im_pixels (sample_img default_target_size))"
    by blast
  then show ?thesis by (auto simp: default_target_size_def sample_img_def)
qed



section \<open>The main function\<close>

lemmas io_defs = sys_exit_def print_stdout_def print_stderr_def called_def start_def Let_def

text \<open>
  Claim C5. When the model path does not exist, the run exits with code 1, standard
  output holds exactly the line \<open>Model not found: <path>\<close>, standard error is
  empty, and the existence check of the model path is the only call made.
\<close>

theorem model_not_found:
  assumes "\<not> os_path_exists L (args_model a)"
  shows "main L a =
           \<lparr>stdout = ''Model not found: '' @ args_model a @ [CHR 0x0A], stderr = [],
            calls = [Call_exists (args_model a)], exit_code = 1\<rparr>"
  using assms by (simp add: main_def io_defs)

text \<open>
  Claim C6. When the model path exists and the image path does not, the run exits with
  code 1, standard output holds exactly the line \<open>Image not found: <path>\<close>,
  standard error is empty, and the two existence checks are the only calls made: no
  model is loaded and nothing is preprocessed.
\<close>

theorem image_not_found:
  assumes "os_path_exists L (args_model a)"
      and "\<not> os_path_exists L (args_image a)"
  shows "main L a =
           \<lparr>stdout = ''Image not found: '' @ args_image a @ [CHR 0x0A], stderr = [],
            calls = [Call_exists (args_model a), Call_exists (args_image a)], exit_code = 1\<rparr>"
  using assms by (simp add: main_def io_defs)

text \<open>
  Claim C10. The model path is checked before the image path: when both are missing,
  only the line \<open>Model not found: <path>\<close> is printed and the only call is the
  existence check of the model path; in every run the first call is that check, and
  the image path is checked later only if the model path exists.
\<close>

theorem model_checked_first:
  shows "(\<not> os_path_exists L (args_model a) \<and> \<not> os_path_exists L (args_image a) \<longrightarrow>
            stdout (main L a) = ''Model not found: '' @ args_model a @ [CHR 0x0A] \<and>
            calls (main L a) = [Call_exists (args_model a)])
       \<and> hd (calls (main L a)) = Call_exists (args_model a)
       \<and> (Call_exists (args_image a) \<in> set (tl (calls (main L a))) \<longrightarrow>
            os_path_exists L (args_model a))"
  by (auto simp: main_def try_body_def io_defs Let_def split: sum.splits prod.splits)




subsection \<open>The report of a successful run\<close>





subsection \<open>Exceptions\<close>

lemma malformed_model_raises:
  "Interpreter L m = Inl e \<Longrightarrow> load_interpreter L m = Inl e"
  by (simp add: load_interpreter_def)

lemma unreadable_image_raises:
  "load_img L i ts = Inl e \<Longrightarrow> load_single_image L i ts = Inl e"
  by (simp add: load_single_image_def)

lemma backend_failure_raises:
  "forward_pass L h t = Inl e \<Longrightarrow> tflite_fp32_predict L h t = Inl e"
  by (simp add: tflite_fp32_predict_def)

lemma shape_mismatch_raises:
  "get_input_details L h = d # ds \<Longrightarrow> set_tensor L h (tensor_index d) t = Inl e \<Longrightarrow>
   forward_pass L h t = Inl e"
  by (simp add: forward_pass_def list_getitem0_def)

lemma try_body_raises:
  assumes "load_interpreter L m = Inl e \<or>
           (\<exists>h. load_interpreter L m = Inr h \<and>
                (load_single_image L i default_target_size = Inl e \<or>
                 (\<exists>t. load_single_image L i default_target_size = Inr t \<and>
                      tflite_fp32_predict L h t = Inl e)))"
  shows "fst (try_body L m i p) = Inl e \<and> stdout (snd (try_body L m i p)) = stdout p \<and>
         stderr (snd (try_body L m i p)) = stderr p"
  using assms by (auto simp: try_body_def io_defs)

text \<open>
  The label lookup of line 94 is inside the \<open>try\<close> too, after the first five lines
  of the report are printed: a predicted index outside the table is reported as an
  error, with those lines already on standard output.
\<close>

lemma label_lookup_raises:
  assumes "os_path_exists L (args_model a)"
      and "os_path_exists L (args_image a)"
      and "load_interpreter L (args_model a) = Inr h"
      and "load_single_image L (args_image a) default_target_size = Inr t"
      and "tflite_fp32_predict L h t = Inr ((pred, conf), h')"
      and "5 \<le> pred"
  shows "exit_code (main L a) = 1 \<and>
         stderr (main L a) = ''Error: list index out of range'' @ [CHR 0x0A] \<and>
         stdout (main L a) =
           [CHR 0x0A] @ replicate 60 (CHR ''='') @ [CHR 0x0A] @
           ''RICE GRAIN CLASSIFICATION RESULTS'' @ [CHR 0x0A] @
           replicate 60 (CHR ''='') @ [CHR 0x0A] @
           ''Image: '' @ args_image a @ [CHR 0x0A] @
           replicate 60 (CHR ''-'') @ [CHR 0x0A]"
  using assms
  by (simp add: main_def try_body_def io_defs list_getitem_def classes_def)

lemma try_body_stderr: "stderr (snd (try_body L m i p)) = stderr p"
  by (auto simp: try_body_def io_defs split: sum.splits prod.splits)

text \<open>
  Claim C7. When both paths exist and loading the model, preprocessing the image or
  the inference raises an exception, the run exits with code 1, standard error holds
  the line \<open>Error: <str(e)>\<close> and standard output is empty. Every run ends in one of
  three ways: exit code 0 with nothing on standard error; exit code 1 with a not-found
  line on standard output and nothing on standard error; exit code 1 with an error
  line on standard error.
\<close>

theorem exceptions_reported:
  shows "(os_path_exists L (args_model a) \<and> os_path_exists L (args_image a) \<longrightarrow>
           (\<forall>e. (load_interpreter L (args_model a) = Inl e \<or>
                 (\<exists>h. load_interpreter L (args_model a) = Inr h \<and>
                    (load_single_image L (args_image a) default_target_size = Inl e \<or>
                     (\<exists>t. load_single_image L (args_image a) default_target_size = Inr t \<and>
                          tflite_fp32_predict L h t = Inl e))))
                \<longrightarrow> exit_code (main L a) = 1 \<and>
                    stderr (main L a) = ''Error: '' @ str e @ [CHR 0x0A] \<and>
                    stdout (main L a) = []))
       \<and> (exit_code (main L a) = 0 \<and> stderr (main L a) = []
          \<or> exit_code (main L a) = 1 \<and> stderr (main L a) = [] \<and>
             (stdout (main L a) = ''Model not found: '' @ args_model a @ [CHR 0x0A] \<or>
              stdout (main L a) = ''Image not found: '' @ args_image a @ [CHR 0x0A])
          \<or> exit_code (main L a) = 1 \<and>
             (\<exists>e. stderr (main L a) = ''Error: '' @ str e @ [CHR 0x0A]))"
proof (intro conjI impI allI)
  fix e
  assume ex: "os_path_exists L (args_model a) \<and> os_path_exists L (args_image a)"
    and r: "load_interpreter L (args_model a) = Inl e \<or>
                 (\<exists>h. load_interpreter L (args_model a) = Inr h \<and>
                    (load_single_image L (args_image a) default_target_size = Inl e \<or>
                     (\<exists>t. load_single_image L (args_image a) default_target_size = Inr t \<and>
                          tflite_fp32_predict L h t = Inl e)))"
  let ?p = "called (Call_exists (args_image a)) (called (Call_exists (args_model a)) start)"
  obtain q where q: "try_body L (args_model a) (args_image a) ?p = (Inl e, q)"
    and "stdout q = stdout ?p" and "stderr q = stderr ?p"
    using try_body_raises [OF r, of ?p] by (cases "try_body L (args_model a) (args_image a) ?p") auto
  then show "exit_code (main L a) = 1" and "stderr (main L a) = ''Error: '' @ str e @ [CHR 0x0A]"
    and "stdout (main L a) = []"
    using ex by (simp_all add: main_def io_defs)
next
  let ?p = "called (Call_exists (args_image a)) (called (Call_exists (args_model a)) start)"
  obtain res q where q: "try_body L (args_model a) (args_image a) ?p = (res, q)"
    by (cases "try_body L (args_model a) (args_image a) ?p") auto
  have "stderr q = []" using try_body_stderr [of L "args_model a" "args_image a" ?p] q
    by (simp add: io_defs)
  then show "exit_code (main L a) = 0 \<and> stderr (main L a) = []
          \<or> exit_code (main L a) = 1 \<and> stderr (main L a) = [] \<and>
             (stdout (main L a) = ''Model not found: '' @ args_model a @ [CHR 0x0A] \<or>
              stdout (main L a) = ''Image not found: '' @ args_image a @ [CHR 0x0A])
          \<or> exit_code (main L a) = 1 \<and>
             (\<exists>e. stderr (main L a) = ''Error: '' @ str e @ [CHR 0x0A])"
    using q by (cases res) (auto simp: main_def io_defs)
qed

subsection \<open>Determinism\<close>




subsection \<open>The main function on the concrete environment\<close>

lemmas sample_defs = sample_libs_def sample_libs2_def sample_args_def






theorem model_not_found_witness:
  "main sample_libs (sample_args ''missing.tflite'' ''grain.jpg'') =
     \<lparr>stdout = ''Model not found: missing.tflite'' @ [CHR 0x0A], stderr = [],
      calls = [Call_exists ''missing.tflite''], exit_code = 1\<rparr>"
  using model_not_found [of sample_libs "sample_args ''missing.tflite'' ''grain.jpg''"]
  by (simp add: sample_defs)

theorem image_not_found_witness:
  "main sample_libs (sample_args ''rice.tflite'' ''missing.jpg'') =
     \<lparr>stdout = ''Image not found: missing.jpg'' @ [CHR 0x0A], stderr = [],
      calls = [Call_exists ''rice.tflite'', Call_exists ''missing.jpg''], exit_code = 1\<rparr>"
  using image_not_found [of sample_libs "sample_args ''rice.tflite'' ''missing.jpg''"]
  by (simp add: sample_defs)

theorem model_checked_first_witness:
  "stdout (main sample_libs (sample_args ''missing.tflite'' ''missing.jpg'')) =
     ''Model not found: missing.tflite'' @ [CHR 0x0A] \<and>
   calls (main sample_libs (sample_args ''missing.tflite'' ''missing.jpg'')) =
     [Call_exists ''missing.tflite'']"
  using model_checked_first [of sample_libs "sample_args ''missing.tflite'' ''missing.jpg''"]
  by (simp add: sample_defs)

theorem exceptions_reported_witness:
  "exit_code (main sample_libs (sample_args ''notes.txt'' ''grain.jpg'')) = 1 \<and>
   stderr (main sample_libs (sample_args ''notes.txt'' ''grain.jpg'')) =
     ''Error: Could not open model'' @ [CHR 0x0A] \<and>
   stdout (main sample_libs (sample_args ''notes.txt'' ''grain.jpg'')) = []"
proof -
  let ?a = "sample_args ''notes.txt'' ''grain.jpg''"
  let ?e = "Exception ''ValueError'' ''Could not open model''"
  have ex: "os_path_exists sample_libs (args_model ?a) \<and> os_path_exists sample_libs (args_image ?a)"
    by (simp add: sample_defs)
  have "load_interpreter sample_libs (args_model ?a) = Inl ?e"
    by (simp add: load_interpreter_def sample_defs)
  then have r: "load_interpreter sample_libs (args_model ?a) = Inl ?e \<or>
     (\<exists>h. load_interpreter sample_libs (args_model ?a) = Inr h \<and>
        (load_single_image sample_libs (args_image ?a) default_target_size = Inl ?e \<or>
         (\<exists>t. load_single_image sample_libs (args_image ?a) default_target_size = Inr t \<and>
              tflite_fp32_predict sample_libs h t = Inl ?e)))"
    by (rule disjI1)
  show ?thesis
    using exceptions_reported [THEN conjunct1, rule_format, OF ex r] by simp
qed



end
